theory Spec2Isabelle
  imports Complex_Main
begin

section \<open>Python values read from the audio configuration\<close>

text \<open>
  The audio configuration \<open>audio_conf\<close> is a Python dict from option names to values.
  \<open>AudioDataset.__init__\<close> reads it with \<open>dict.get\<close>, which yields \<open>None\<close> for an
  absent key. Floats are abstracted to reals: the constructor only compares them with zero
  and formats them.
\<close>

datatype pyval = PNone | PBool bool | PInt int | PFloat real | PStr string

type_synonym audio_conf_dict = "string \<rightharpoonup> pyval"

definition conf_get :: "audio_conf_dict \<Rightarrow> string \<Rightarrow> pyval" where
  "conf_get conf k = (case conf k of None \<Rightarrow> PNone | Some v \<Rightarrow> v)"

text \<open>
  Exceptions. The built-in ones are raised by the constructor and by the table lookups of
  \<open>__getitem__\<close>; \<open>Raised name\<close> stands for an exception of class \<open>name\<close> raised inside a
  stage object of \<open>utilities.dataloader_utils\<close>.
\<close>

datatype error = TypeError | ValueError | AttributeError | IndexError | KeyError
  | Raised string

text \<open>Truth value of a Python object, as tested by \<open>if x:\<close>.\<close>

fun py_truth :: "pyval \<Rightarrow> bool" where
  "py_truth PNone = False"
| "py_truth (PBool b) = b"
| "py_truth (PInt i) = (i \<noteq> 0)"
| "py_truth (PFloat x) = (x \<noteq> 0)"
| "py_truth (PStr s) = (s \<noteq> [])"

text \<open>The comparison \<open>x != 0\<close>: \<open>False == 0\<close> holds in Python, \<open>None\<close> and strings differ from 0.\<close>

fun py_ne_zero :: "pyval \<Rightarrow> bool" where
  "py_ne_zero PNone = True"
| "py_ne_zero (PBool b) = b"
| "py_ne_zero (PInt i) = (i \<noteq> 0)"
| "py_ne_zero (PFloat x) = (x \<noteq> 0)"
| "py_ne_zero (PStr s) = True"

text \<open>
  \<open>str.format\<close> with the format codes the constructor uses. \<open>None\<close> rejects every
  non-empty format specification with TypeError; an unknown presentation type for the
  object's class is a ValueError. \<open>bool\<close> is a subclass of \<open>int\<close> and formats like it.
\<close>

fun format_s :: "pyval \<Rightarrow> error + unit" where
  "format_s (PStr s) = Inr ()"
| "format_s PNone = Inl TypeError"
| "format_s v = Inl ValueError"

fun format_d :: "pyval \<Rightarrow> error + unit" where
  "format_d (PInt i) = Inr ()"
| "format_d (PBool b) = Inr ()"
| "format_d PNone = Inl TypeError"
| "format_d v = Inl ValueError"

fun format_3f :: "pyval \<Rightarrow> error + unit" where
  "format_3f (PInt i) = Inr ()"
| "format_3f (PBool b) = Inr ()"
| "format_3f (PFloat x) = Inr ()"
| "format_3f PNone = Inl TypeError"
| "format_3f (PStr s) = Inl ValueError"

text \<open>\<open>'now process ' + x\<close>: only a \<open>str\<close> can be concatenated to a \<open>str\<close>.\<close>

fun str_concat :: "pyval \<Rightarrow> error + unit" where
  "str_concat (PStr s) = Inr ()"
| "str_concat v = Inl TypeError"

text \<open>Sequencing of statements that may raise: the first exception ends the run.\<close>

definition andthen :: "error + 'a \<Rightarrow> ('a \<Rightarrow> error + 'b) \<Rightarrow> error + 'b" where
  "andthen r f = (case r of Inl e \<Rightarrow> Inl e | Inr x \<Rightarrow> f x)"

section \<open>The annotation table\<close>

text \<open>
  \<open>annotations_df\<close> is a pandas DataFrame: an index of uids and named label columns, each
  column holding one cell per row. A missing label is NaN.
\<close>

datatype cell = Val real | NaN

record dataframe =
  index :: "string list"
  columns :: "(string \<times> cell list) list"

text \<open>
  Positional access \<open>xs[i]\<close> / \<open>.iloc[i]\<close>: negative positions count from the end,
  positions outside the table raise IndexError.
\<close>

definition py_nth :: "'a list \<Rightarrow> int \<Rightarrow> error + 'a" where
  "py_nth xs i =
     (if 0 \<le> i \<and> i < int (length xs) then Inr (xs ! nat i)
      else if i < 0 \<and> - int (length xs) \<le> i then Inr (xs ! nat (int (length xs) + i))
      else Inl IndexError)"

text \<open>\<open>df[labels]\<close>: selects the named columns in the order of \<open>labels\<close>; an unknown name is a KeyError.\<close>

fun select_columns :: "(string \<times> cell list) list \<Rightarrow> string list \<Rightarrow> error + cell list list" where
  "select_columns cols [] = Inr []"
| "select_columns cols (l # ls) =
     (case map_of cols l of
        None \<Rightarrow> Inl KeyError
      | Some c \<Rightarrow> andthen (select_columns cols ls) (\<lambda>cs. Inr (c # cs)))"

text \<open>\<open>.iloc[idx].values\<close> on the selected columns: the cell of every selected column at row \<open>idx\<close>.\<close>

fun iloc_values :: "cell list list \<Rightarrow> int \<Rightarrow> error + cell list" where
  "iloc_values [] i = Inr []"
| "iloc_values (c # cs) i =
     andthen (py_nth c i) (\<lambda>v. andthen (iloc_values cs i) (\<lambda>vs. Inr (v # vs)))"

section \<open>Tensors, samples and stage objects\<close>

text \<open>
  A two-dimensional tensor with its shape. The waveform has shape (channels, samples),
  the filterbank feature (frames, mel bins).
\<close>

record tensor =
  shape :: "nat \<times> nat"
  rows :: "real list list"

definition wf_tensor :: "tensor \<Rightarrow> bool" where
  "wf_tensor t = (length (rows t) = fst (shape t) \<and> list_all (\<lambda>r. length r = snd (shape t)) (rows t))"

text \<open>
  The reduce function built in \<open>_getaudiotransform\<close>:
  \<open>channel_sum = lambda w: torch.sum(w, axis = 0).unsqueeze(0)\<close>.
\<close>

definition torch_sum_axis0 :: "tensor \<Rightarrow> real list" where
  "torch_sum_axis0 w = map (\<lambda>j. sum_list (map (\<lambda>r. r ! j) (rows w))) [0..<snd (shape w)]"

definition unsqueeze0 :: "real list \<Rightarrow> tensor" where
  "unsqueeze0 v = \<lparr>shape = (1, length v), rows = [v]\<rparr>"

definition channel_sum :: "tensor \<Rightarrow> tensor" where
  "channel_sum w = unsqueeze0 (torch_sum_axis0 w)"

text \<open>The sample dict handed from stage to stage; the keys a stage has not set yet are absent.\<close>

record sample =
  uid :: string
  targets :: "cell list"
  waveform :: "tensor option"
  sample_rate :: "int option"
  fbank :: "tensor option"

text \<open>The two image transforms the constructor tries to build for the conversion stage.\<close>

datatype img_transform = CoarseDropout | Affine

text \<open>
  Stage objects: one constructor per class of \<open>utilities.dataloader_utils\<close> instantiated in
  \<open>_getaudiotransform\<close> and \<open>_getspectransform\<close>, holding the constructor arguments.
\<close>

datatype stage =
    UidToWaveform string "string option" bool
  | ToMonophonic
  | Resample pyval
  | Truncate pyval
  | ToTensor
  | WaveMean
  | TimeShifting pyval
  | SpeedTuning pyval
  | AddGaussianNoise pyval
  | PitchShift pyval pyval
  | Gain pyval
  | StretchAudio pyval
  | Wav2Fbank pyval pyval "img_transform option" "img_transform option" bool
  | FreqMask pyval
  | TimeMask pyval
  | Normalize pyval pyval
  | Noise

text \<open>
  \<open>al_transform\<close> is a plain Python list while it is collected and is wrapped in
  \<open>albumentations.Compose\<close> only when it is not empty.
\<close>

datatype al_chain = PlainList "stage list" | AlCompose "stage list"

section \<open>The dataset object\<close>

text \<open>
  The attributes \<open>__init__\<close> assigns before it builds the transform chains.
  The pitch-shift step count is stored as \<open>pshift_n\<close>.
\<close>

record self_attrs =
  annotations_df :: dataframe
  target_labels :: "string list"
  prefix :: string
  bucket :: "string option"
  lib :: bool
  audio_conf :: audio_conf_dict
  dataset :: pyval
  resample_rate :: pyval
  reduce :: pyval
  clip_length :: pyval
  tshift :: pyval
  speed :: pyval
  gauss :: pyval
  pshift :: pyval
  pshift_n :: pyval
  gain :: pyval
  stretch :: pyval
  melbins :: pyval
  freqm :: pyval
  timem :: pyval
  norm_mean :: pyval
  norm_std :: pyval
  skip_norm :: pyval
  noise :: pyval
  target_length :: pyval
  label_num :: nat
  tf_co :: "img_transform option"
  tf_shift :: "img_transform option"

record AudioDataset = self_attrs +
  audio_transform :: "stage list"
  al_transform :: al_chain
  spec_transform :: "stage list"

text \<open>
  \<open>_getaudiotransform\<close>. The pitch-shift branch reads \<open>self.pshiftn\<close>, an attribute that
  no statement assigns (\<open>__init__\<close> assigns \<open>self.pshift_n\<close>), so that branch raises
  AttributeError before the stage object is built.
\<close>

definition getaudiotransform :: "'a self_attrs_scheme \<Rightarrow> error + (stage list \<times> al_chain)" where
  "getaudiotransform self =
     (let transform_list =
            [UidToWaveform (prefix self) (bucket self) (lib self)]
            @ (if py_truth (reduce self) then [ToMonophonic] else [])
            @ (if py_ne_zero (resample_rate self) then [Resample (resample_rate self)] else [])
            @ (if py_ne_zero (clip_length self) then [Truncate (clip_length self)] else [])
            @ [ToTensor, WaveMean];
          al3 =
            (if py_ne_zero (tshift self) then [TimeShifting (tshift self)] else [])
            @ (if py_ne_zero (speed self) then [SpeedTuning (speed self)] else [])
            @ (if py_ne_zero (gauss self) then [AddGaussianNoise (gauss self)] else [])
      in if py_ne_zero (pshift self) then Inl AttributeError
         else
           (let al6 = al3
                  @ (if py_ne_zero (gain self) then [Gain (gain self)] else [])
                  @ (if py_ne_zero (stretch self) then [StretchAudio (stretch self)] else [])
            in Inr (transform_list, if al6 \<noteq> [] then AlCompose al6 else PlainList al6)))"

text \<open>\<open>_getspectransform\<close>.\<close>

definition getspectransform :: "'a self_attrs_scheme \<Rightarrow> stage list" where
  "getspectransform self =
     [Wav2Fbank (target_length self) (melbins self) (tf_co self) (tf_shift self) False]
     @ (if py_ne_zero (freqm self) then [FreqMask (freqm self)] else [])
     @ (if py_ne_zero (timem self) then [TimeMask (timem self)] else [])
     @ (if \<not> py_truth (skip_norm self) then [Normalize (norm_mean self) (norm_std self)] else [])
     @ (if py_truth (noise self) then [Noise] else [])"

text \<open>
  Attribute lookup on the \<open>torch\<close> module, \<open>torch.CoarseDropout\<close> and \<open>torch.Affine\<close>:
  the module's namespace is given by \<open>torch_has\<close>; a name it lacks raises AttributeError.
\<close>

definition torch_attr :: "(string \<Rightarrow> bool) \<Rightarrow> string \<Rightarrow> img_transform \<Rightarrow> error + img_transform option" where
  "torch_attr torch_has name obj = (if torch_has name then Inr (Some obj) else Inl AttributeError)"

text \<open>
  \<open>AudioDataset.__init__\<close>, statement by statement: the \<open>print\<close> calls only matter through
  the formatting that can raise. \<open>init_attrs\<close> collects the attribute assignments.
\<close>

definition init_attrs ::
  "dataframe \<Rightarrow> string list \<Rightarrow> audio_conf_dict \<Rightarrow> string \<Rightarrow> string option \<Rightarrow> bool
     \<Rightarrow> pyval \<Rightarrow> img_transform option \<Rightarrow> img_transform option \<Rightarrow> self_attrs" where
  "init_attrs df labels conf pre bkt librosa skipn co sh =
     \<lparr>annotations_df = df, target_labels = labels, prefix = pre, bucket = bkt,
      lib = librosa, audio_conf = conf,
      dataset = conf_get conf ''dataset'',
      resample_rate = conf_get conf ''resample_rate'',
      reduce = conf_get conf ''reduce'',
      clip_length = conf_get conf ''clip_length'',
      tshift = conf_get conf ''tshift'',
      speed = conf_get conf ''speed'',
      gauss = conf_get conf ''gauss_noise'',
      pshift = conf_get conf ''pshift'',
      pshift_n = conf_get conf ''pshiftn'',
      gain = conf_get conf ''gain'',
      stretch = conf_get conf ''stretch'',
      melbins = conf_get conf ''num_mel_bins'',
      freqm = conf_get conf ''freqm'',
      timem = conf_get conf ''timem'',
      norm_mean = conf_get conf ''mean'',
      norm_std = conf_get conf ''std'',
      skip_norm = skipn,
      noise = conf_get conf ''noise'',
      target_length = conf_get conf ''target_length'',
      label_num = length labels,
      tf_co = co, tf_shift = sh\<rparr>"

text \<open>\<open>self.skip_norm = self.audio_conf.get('skip_norm') if self.audio_conf.get('skip_norm') else False\<close>\<close>

definition init_skip_norm :: "audio_conf_dict \<Rightarrow> pyval" where
  "init_skip_norm conf =
     (if py_truth (conf_get conf ''skip_norm'') then conf_get conf ''skip_norm'' else PBool False)"

definition AudioDataset_init ::
  "(string \<Rightarrow> bool) \<Rightarrow> dataframe \<Rightarrow> string list \<Rightarrow> audio_conf_dict \<Rightarrow> string \<Rightarrow> string option
     \<Rightarrow> bool \<Rightarrow> bool \<Rightarrow> bool \<Rightarrow> error + AudioDataset" where
  "AudioDataset_init torch_has df labels conf pre bkt librosa cdo shift =
     andthen (format_s (conf_get conf ''mode'')) (\<lambda>_.
     andthen (str_concat (conf_get conf ''dataset'')) (\<lambda>_.
     andthen (format_d (conf_get conf ''freqm'')) (\<lambda>_.
     andthen (format_d (conf_get conf ''timem'')) (\<lambda>_.
     andthen (if py_truth (init_skip_norm conf) then Inr ()
              else andthen (format_3f (conf_get conf ''mean'')) (\<lambda>_.
                           format_3f (conf_get conf ''std''))) (\<lambda>_.
     andthen (if cdo then torch_attr torch_has ''CoarseDropout'' CoarseDropout else Inr None) (\<lambda>co.
     andthen (if shift then torch_attr torch_has ''Affine'' Affine else Inr None) (\<lambda>sh.
     andthen (getaudiotransform
                (init_attrs df labels conf pre bkt librosa (init_skip_norm conf) co sh)) (\<lambda>(tr, al).
     Inr (self_attrs.extend
            (init_attrs df labels conf pre bkt librosa (init_skip_norm conf) co sh)
            (AudioDataset.fields tr al
               (getspectransform
                  (init_attrs df labels conf pre bkt librosa (init_skip_norm conf) co sh))))))))))))"

section \<open>Producing a sample\<close>

text \<open>
  The stage classes live in \<open>utilities.dataloader_utils\<close>; what calling a stage object on a
  sample does during one call of \<open>__getitem__\<close> (file contents and random draws included)
  is the parameter \<open>stage_call\<close>, and what calling the \<open>albumentations.Compose\<close> object
  does is \<open>al_call\<close>.
\<close>

record runtime =
  stage_call :: "stage \<Rightarrow> sample \<Rightarrow> error + sample"
  al_call :: "stage list \<Rightarrow> sample \<Rightarrow> error + sample"

text \<open>\<open>transforms.Compose\<close>: calls the stages in list order, each on the result of the one before.\<close>

fun Compose_call :: "(stage \<Rightarrow> sample \<Rightarrow> error + sample) \<Rightarrow> stage list \<Rightarrow> sample \<Rightarrow> error + sample" where
  "Compose_call call [] s = Inr s"
| "Compose_call call (t # ts) s = andthen (call t s) (Compose_call call ts)"

text \<open>The index argument: a Python int, or a zero-dimensional integer tensor.\<close>

datatype index_arg = IntIdx int | TensorIdx int

fun is_tensor :: "index_arg \<Rightarrow> bool" where
  "is_tensor (TensorIdx i) = True"
| "is_tensor (IntIdx i) = False"

fun tolist :: "index_arg \<Rightarrow> int" where
  "tolist (TensorIdx i) = i"
| "tolist (IntIdx i) = i"

text \<open>The position held by an index argument that is already a Python int.\<close>

fun the_int :: "index_arg \<Rightarrow> int" where
  "the_int (IntIdx i) = i"
| "the_int (TensorIdx i) = i"

text \<open>The augmentation step of \<open>__getitem__\<close>: \<open>if self.al_transform != []: sample = self.al_transform(sample)\<close>.
  A non-empty plain list is not callable.\<close>

fun run_al :: "runtime \<Rightarrow> al_chain \<Rightarrow> sample \<Rightarrow> error + sample" where
  "run_al rt (PlainList []) s = Inr s"
| "run_al rt (PlainList (t # ts)) s = Inl TypeError"
| "run_al rt (AlCompose ts) s = al_call rt ts s"

text \<open>The two table lookups at the start of \<open>__getitem__\<close>, giving the initial sample dict.\<close>

definition initial_sample :: "AudioDataset \<Rightarrow> int \<Rightarrow> error + sample" where
  "initial_sample self idx =
     andthen (py_nth (index (annotations_df self)) idx) (\<lambda>u.
     andthen (select_columns (columns (annotations_df self)) (target_labels self)) (\<lambda>cols.
     andthen (iloc_values cols idx) (\<lambda>ts.
     Inr \<lparr>uid = u, targets = ts, waveform = None, sample_rate = None, fbank = None\<rparr>)))"

definition getitem :: "runtime \<Rightarrow> AudioDataset \<Rightarrow> index_arg \<Rightarrow> error + sample" where
  "getitem rt self idx0 =
     (let idx = (if is_tensor idx0 then tolist idx0 else the_int idx0)
      in andthen (initial_sample self idx) (\<lambda>s0.
         andthen (Compose_call (stage_call rt) (audio_transform self) s0) (\<lambda>s1.
         andthen (run_al rt (al_transform self) s1) (\<lambda>s2.
         Compose_call (stage_call rt) (spec_transform self) s2))))"


section \<open>The spectrogram stages\<close>

text \<open>
  Modelled from the spec: the classes \<open>Wav2Fbank\<close>, \<open>FreqMask\<close>, \<open>TimeMask\<close>, \<open>Normalize\<close>
  and \<open>Noise\<close> of \<open>utilities.dataloader_utils\<close> are missing from the sources. The spec's
  section 4.4 says: the conversion produces a mel-filterbank representation with
  \<open>num_mel_bins\<close> bins, the two optional image transforms are applied to the feature map,
  and the frame axis is then forced to \<open>target_length\<close> by truncation or by zero-padding
  at the end; frequency and time masking zero a contiguous band of at most the configured
  width; normalization subtracts the mean and divides by the std; noise is added to the
  features. The mel-filterbank computation, the image transforms and the random draws
  are parameters.
\<close>

record spec_externals =
  mel_filterbank :: "nat \<Rightarrow> tensor \<Rightarrow> int option \<Rightarrow> tensor"
  img_apply :: "img_transform \<Rightarrow> tensor \<Rightarrow> tensor"
  freq_band :: "nat \<Rightarrow> tensor \<Rightarrow> nat \<times> nat"
  time_band :: "nat \<Rightarrow> tensor \<Rightarrow> nat \<times> nat"
  noise_at :: "nat \<Rightarrow> nat \<Rightarrow> real"
  other_call :: "stage \<Rightarrow> sample \<Rightarrow> error + sample"

definition fix_frames :: "nat \<Rightarrow> tensor \<Rightarrow> tensor" where
  "fix_frames T fb =
     \<lparr>shape = (T, snd (shape fb)),
      rows = (if T \<le> length (rows fb) then take T (rows fb)
              else rows fb @ replicate (T - length (rows fb)) (replicate (snd (shape fb)) 0))\<rparr>"

definition opt_img :: "spec_externals \<Rightarrow> img_transform option \<Rightarrow> tensor \<Rightarrow> tensor" where
  "opt_img x tf fb = (case tf of None \<Rightarrow> fb | Some t \<Rightarrow> img_apply x t fb)"

definition zero_band :: "nat \<Rightarrow> nat \<Rightarrow> real list \<Rightarrow> real list" where
  "zero_band a w r = map (\<lambda>(j, v). if a \<le> j \<and> j < a + w then 0 else v) (enumerate 0 r)"

definition zero_cols :: "nat \<Rightarrow> nat \<Rightarrow> tensor \<Rightarrow> tensor" where
  "zero_cols a w fb = fb\<lparr>rows := map (zero_band a w) (rows fb)\<rparr>"

definition zero_rows :: "nat \<Rightarrow> nat \<Rightarrow> tensor \<Rightarrow> tensor" where
  "zero_rows a w fb =
     fb\<lparr>rows := map (\<lambda>(i, r). if a \<le> i \<and> i < a + w then map (\<lambda>v. 0) r else r)
                    (enumerate 0 (rows fb))\<rparr>"

definition normalize_tensor :: "real \<Rightarrow> real \<Rightarrow> tensor \<Rightarrow> tensor" where
  "normalize_tensor m sd fb = fb\<lparr>rows := map (map (\<lambda>v. (v - m) / sd)) (rows fb)\<rparr>"

definition add_noise :: "(nat \<Rightarrow> nat \<Rightarrow> real) \<Rightarrow> tensor \<Rightarrow> tensor" where
  "add_noise nz fb =
     fb\<lparr>rows := map (\<lambda>(i, r). map (\<lambda>(j, v). v + nz i j) (enumerate 0 r)) (enumerate 0 (rows fb))\<rparr>"

fun py_int :: "pyval \<Rightarrow> int option" where
  "py_int (PInt i) = Some i"
| "py_int (PBool b) = Some (if b then 1 else 0)"
| "py_int v = None"

fun py_num :: "pyval \<Rightarrow> real option" where
  "py_num (PInt i) = Some (real_of_int i)"
| "py_num (PFloat r) = Some r"
| "py_num (PBool b) = Some (if b then 1 else 0)"
| "py_num v = None"

definition on_fbank :: "sample \<Rightarrow> (tensor \<Rightarrow> tensor) \<Rightarrow> error + sample" where
  "on_fbank s f = (case fbank s of None \<Rightarrow> Inl KeyError | Some fb \<Rightarrow> Inr (s\<lparr>fbank := Some (f fb)\<rparr>))"

fun spec_stage_call :: "spec_externals \<Rightarrow> stage \<Rightarrow> sample \<Rightarrow> error + sample" where
  "spec_stage_call x (Wav2Fbank T M co sh ow) s =
     (case (py_int T, py_int M, waveform s) of
        (Some t, Some m, Some w) \<Rightarrow>
          Inr (s\<lparr>fbank := Some (fix_frames (nat t)
                 (opt_img x sh (opt_img x co (mel_filterbank x (nat m) w (sample_rate s)))))\<rparr>)
      | (Some t, Some m, None) \<Rightarrow> Inl KeyError
      | _ \<Rightarrow> Inl TypeError)"
| "spec_stage_call x (FreqMask m) s =
     (case py_int m of
        None \<Rightarrow> Inl TypeError
      | Some k \<Rightarrow> on_fbank s (\<lambda>fb. zero_cols (fst (freq_band x (nat k) fb))
                                      (min (snd (freq_band x (nat k) fb)) (nat k)) fb))"
| "spec_stage_call x (TimeMask m) s =
     (case py_int m of
        None \<Rightarrow> Inl TypeError
      | Some k \<Rightarrow> on_fbank s (\<lambda>fb. zero_rows (fst (time_band x (nat k) fb))
                                      (min (snd (time_band x (nat k) fb)) (nat k)) fb))"
| "spec_stage_call x (Normalize m sd) s =
     (case (py_num m, py_num sd) of
        (Some mu, Some sg) \<Rightarrow> on_fbank s (normalize_tensor mu sg)
      | _ \<Rightarrow> Inl TypeError)"
| "spec_stage_call x Noise s = on_fbank s (add_noise (noise_at x))"
| "spec_stage_call x st s = other_call x st s"

section \<open>Chains that raise, and sequences of calls\<close>

text \<open>
  \<open>raises_at call ts s e\<close>: when the stages \<open>ts\<close> are called in order starting from \<open>s\<close>,
  some stage, reached on the results of the stages before it, raises \<open>e\<close>.
\<close>

inductive raises_at :: "(stage \<Rightarrow> sample \<Rightarrow> error + sample) \<Rightarrow> stage list \<Rightarrow> sample \<Rightarrow> error \<Rightarrow> bool" where
  here: "call t s = Inl e \<Longrightarrow> raises_at call (t # ts) s e"
| later: "call t s = Inr s' \<Longrightarrow> raises_at call ts s' e \<Longrightarrow> raises_at call (t # ts) s e"





section \<open>Example inputs\<close>

text \<open>
  An annotation table with three recordings and two label columns, and the evaluation
  configuration of \<open>run.py\<close> completed with the \<open>mode\<close> and \<open>dataset\<close> entries the
  constructor formats.
\<close>

definition example_df :: dataframe where
  "example_df =
     \<lparr>index = [''u001'', ''u002'', ''u003''],
      columns = [(''dys'', [Val 1, NaN, Val 0]), (''slow'', [Val 0, Val 1, NaN])]\<rparr>"

definition eval_conf :: audio_conf_dict where
  "eval_conf = map_of
     [(''mode'', PStr ''evaluation''), (''dataset'', PStr ''mayo''),
      (''resample_rate'', PInt 16000), (''reduce'', PBool True), (''clip_length'', PFloat 10),
      (''tshift'', PInt 0), (''speed'', PInt 0), (''gauss_noise'', PInt 0),
      (''pshift'', PInt 0), (''pshiftn'', PInt 0), (''gain'', PInt 0), (''stretch'', PInt 0),
      (''num_mel_bins'', PInt 2), (''target_length'', PInt 3),
      (''freqm'', PInt 0), (''timem'', PInt 0), (''mixup'', PInt 0), (''noise'', PBool False),
      (''mean'', PFloat (-4)), (''std'', PFloat 4)]"

text \<open>A namespace of the \<open>torch\<close> module holding the two functions the file calls on it.\<close>

definition example_torch :: "string \<Rightarrow> bool" where
  "example_torch name = (name = ''is_tensor'' \<or> name = ''sum'')"

text \<open>
  Example stage behaviour: the loader yields a two-channel waveform of four samples at
  8 kHz, the mel-filterbank yields one frame per two samples, the other signal stages
  leave the sample as it is.
\<close>

definition example_wave :: tensor where
  "example_wave = \<lparr>shape = (2, 4), rows = [[1, 2, 3, 4], [0, 1, 0, 1]]\<rparr>"

fun example_other :: "stage \<Rightarrow> sample \<Rightarrow> error + sample" where
  "example_other (UidToWaveform p b l) s =
     (if uid s = ''u003'' then Inl (Raised ''NotFoundError'')
      else Inr (s\<lparr>waveform := Some example_wave, sample_rate := Some 8000\<rparr>))"
| "example_other ToMonophonic s =
     Inr (s\<lparr>waveform := map_option channel_sum (waveform s)\<rparr>)"
| "example_other st s = Inr s"

definition example_mel :: "nat \<Rightarrow> tensor \<Rightarrow> int option \<Rightarrow> tensor" where
  "example_mel m w sr =
     \<lparr>shape = (snd (shape w) div 2, m),
      rows = replicate (snd (shape w) div 2) (replicate m 1)\<rparr>"

definition example_ext :: spec_externals where
  "example_ext =
     \<lparr>mel_filterbank = example_mel, img_apply = (\<lambda>t fb. fb),
      freq_band = (\<lambda>k fb. (0, k)), time_band = (\<lambda>k fb. (1, k)),
      noise_at = (\<lambda>i j. 0), other_call = example_other\<rparr>"

definition example_rt :: runtime where
  "example_rt = \<lparr>stage_call = spec_stage_call example_ext, al_call = Compose_call example_other\<rparr>"

text \<open>The dataset that construction yields on the example inputs.\<close>

definition example_ds :: AudioDataset where
  "example_ds =
     self_attrs.extend
       (init_attrs example_df [''dys'', ''slow''] eval_conf ''/data'' None False (PBool False) None None)
       (AudioDataset.fields
          [UidToWaveform ''/data'' None False, ToMonophonic, Resample (PInt 16000),
           Truncate (PFloat 10), ToTensor, WaveMean]
          (PlainList [])
          [Wav2Fbank (PInt 3) (PInt 2) None None False, Normalize (PFloat (- 4)) (PFloat 4)])"

text \<open>
  A training configuration: three augmentation stages, both maskings and feature noise
  switched on; and the dataset that construction yields for it.
\<close>

definition train_conf :: audio_conf_dict where
  "train_conf = eval_conf
     (''tshift'' \<mapsto> PFloat (9 / 10), ''gauss_noise'' \<mapsto> PFloat (4 / 5), ''gain'' \<mapsto> PFloat (9 / 10),
      ''freqm'' \<mapsto> PInt 1, ''timem'' \<mapsto> PInt 2, ''noise'' \<mapsto> PBool True)"

definition example_train_ds :: AudioDataset where
  "example_train_ds =
     self_attrs.extend
       (init_attrs example_df [''dys'', ''slow''] train_conf ''/data'' None False (PBool False) None None)
       (AudioDataset.fields
          [UidToWaveform ''/data'' None False, ToMonophonic, Resample (PInt 16000),
           Truncate (PFloat 10), ToTensor, WaveMean]
          (AlCompose [TimeShifting (PFloat (9 / 10)), AddGaussianNoise (PFloat (4 / 5)),
                      Gain (PFloat (9 / 10))])
          [Wav2Fbank (PInt 3) (PInt 2) None None False, FreqMask (PInt 1), TimeMask (PInt 2),
           Normalize (PFloat (- 4)) (PFloat 4), Noise])"

text \<open>The shape of the feature of a sample: \<open>(T, M)\<close>, with the rows to match.\<close>

definition has_fbank_shape :: "nat \<Rightarrow> nat \<Rightarrow> sample \<Rightarrow> bool" where
  "has_fbank_shape T M s =
     (case fbank s of None \<Rightarrow> False | Some fb \<Rightarrow> shape fb = (T, M) \<and> wf_tensor fb)"

text \<open>The stages that follow the conversion in the spectrogram chain.\<close>

fun is_post_stage :: "stage \<Rightarrow> bool" where
  "is_post_stage (FreqMask m) = True"
| "is_post_stage (TimeMask m) = True"
| "is_post_stage (Normalize m sd) = True"
| "is_post_stage Noise = True"
| "is_post_stage st = False"

text \<open>
  Example stage behaviour for waveforms of a chosen length: the loader yields a
  one-channel waveform of \<open>n\<close> samples, the other signal stages leave the sample as it is.
\<close>

definition wave_of_len :: "nat \<Rightarrow> tensor" where
  "wave_of_len n = \<lparr>shape = (1, n), rows = [replicate n 1]\<rparr>"

fun load_wave :: "tensor \<Rightarrow> stage \<Rightarrow> sample \<Rightarrow> error + sample" where
  "load_wave w (UidToWaveform p b l) s = Inr (s\<lparr>waveform := Some w, sample_rate := Some 8000\<rparr>)"
| "load_wave w st s = Inr s"

definition wave_ext :: "nat \<Rightarrow> spec_externals" where
  "wave_ext n = example_ext\<lparr>other_call := load_wave (wave_of_len n)\<rparr>"

definition wave_rt :: "nat \<Rightarrow> runtime" where
  "wave_rt n = \<lparr>stage_call = spec_stage_call (wave_ext n), al_call = (\<lambda>ts s. Inr s)\<rparr>"

section \<open>Basic facts about sequencing and construction\<close>

lemma andthen_Inl [simp]: "andthen (Inl e) f = Inl e"
  by (simp add: andthen_def)

lemma andthen_Inr [simp]: "andthen (Inr x) f = f x"
  by (simp add: andthen_def)

lemma andthen_Inr_iff: "andthen r f = Inr y \<longleftrightarrow> (\<exists>x. r = Inr x \<and> f x = Inr y)"
  by (cases r) simp_all


lemma torch_attr_Inr: "torch_attr th n obj = Inr v \<longleftrightarrow> (th n \<and> v = Some obj)"
  by (auto simp: torch_attr_def)

text \<open>What a successful construction has computed.\<close>

lemma init_Inr:
  assumes "AudioDataset_init torch_has df labels conf pre bkt librosa cdo shift = Inr ds"
  obtains co sh tr al where
    "getaudiotransform (init_attrs df labels conf pre bkt librosa (init_skip_norm conf) co sh) = Inr (tr, al)"
    "ds = self_attrs.extend (init_attrs df labels conf pre bkt librosa (init_skip_norm conf) co sh)
            (AudioDataset.fields tr al
               (getspectransform (init_attrs df labels conf pre bkt librosa (init_skip_norm conf) co sh)))"
    "co = (if cdo then Some CoarseDropout else None)"
    "sh = (if shift then Some Affine else None)"
  using assms unfolding AudioDataset_init_def andthen_Inr_iff
  by (auto simp: torch_attr_Inr split: if_splits)

lemma py_truth_init_skip_norm: "py_truth (init_skip_norm conf) = py_truth (conf_get conf ''skip_norm'')"
  by (simp add: init_skip_norm_def)

lemma Compose_call_append:
  "Compose_call call (ts @ us) s = andthen (Compose_call call ts s) (Compose_call call us)"
  by (induction ts arbitrary: s) (simp_all add: andthen_def split: sum.splits)

section \<open>Tensor indices\<close>


lemma Compose_call_append_fun:
  "Compose_call call (ts @ us) = (\<lambda>s. andthen (Compose_call call ts s) (Compose_call call us))"
  by (rule ext) (rule Compose_call_append)

lemma Compose_call_single: "Compose_call call [t] = call t"
  by (rule ext) (simp add: andthen_def split: sum.splits)

lemma Compose_call_opt:
  "Compose_call call (if b then [t] else []) = (\<lambda>s. if b then call t s else Inr s)"
  by (rule ext) (simp add: andthen_def split: sum.splits)

lemma Compose_call_two: "Compose_call call [t, u] = (\<lambda>s. andthen (call t s) (call u))"
  by (rule ext) (simp add: andthen_def split: sum.splits)

lemma getaudiotransform_Inr:
  assumes "getaudiotransform self = Inr (tr, al)"
  shows "tr = [UidToWaveform (prefix self) (bucket self) (lib self)]
            @ (if py_truth (reduce self) then [ToMonophonic] else [])
            @ (if py_ne_zero (resample_rate self) then [Resample (resample_rate self)] else [])
            @ (if py_ne_zero (clip_length self) then [Truncate (clip_length self)] else [])
            @ [ToTensor, WaveMean]"
    and "\<not> py_ne_zero (pshift self)"
  using assms by (auto simp: getaudiotransform_def Let_def split: if_splits)

lemma init_attrs_fields:
  "prefix (init_attrs df labels conf pre bkt librosa skipn co sh) = pre"
  "bucket (init_attrs df labels conf pre bkt librosa skipn co sh) = bkt"
  "lib (init_attrs df labels conf pre bkt librosa skipn co sh) = librosa"
  "reduce (init_attrs df labels conf pre bkt librosa skipn co sh) = conf_get conf ''reduce''"
  "resample_rate (init_attrs df labels conf pre bkt librosa skipn co sh) = conf_get conf ''resample_rate''"
  "clip_length (init_attrs df labels conf pre bkt librosa skipn co sh) = conf_get conf ''clip_length''"
  "tshift (init_attrs df labels conf pre bkt librosa skipn co sh) = conf_get conf ''tshift''"
  "speed (init_attrs df labels conf pre bkt librosa skipn co sh) = conf_get conf ''speed''"
  "gauss (init_attrs df labels conf pre bkt librosa skipn co sh) = conf_get conf ''gauss_noise''"
  "pshift (init_attrs df labels conf pre bkt librosa skipn co sh) = conf_get conf ''pshift''"
  "gain (init_attrs df labels conf pre bkt librosa skipn co sh) = conf_get conf ''gain''"
  "stretch (init_attrs df labels conf pre bkt librosa skipn co sh) = conf_get conf ''stretch''"
  "melbins (init_attrs df labels conf pre bkt librosa skipn co sh) = conf_get conf ''num_mel_bins''"
  "freqm (init_attrs df labels conf pre bkt librosa skipn co sh) = conf_get conf ''freqm''"
  "timem (init_attrs df labels conf pre bkt librosa skipn co sh) = conf_get conf ''timem''"
  "norm_mean (init_attrs df labels conf pre bkt librosa skipn co sh) = conf_get conf ''mean''"
  "norm_std (init_attrs df labels conf pre bkt librosa skipn co sh) = conf_get conf ''std''"
  "skip_norm (init_attrs df labels conf pre bkt librosa skipn co sh) = skipn"
  "noise (init_attrs df labels conf pre bkt librosa skipn co sh) = conf_get conf ''noise''"
  "target_length (init_attrs df labels conf pre bkt librosa skipn co sh) = conf_get conf ''target_length''"
  "tf_co (init_attrs df labels conf pre bkt librosa skipn co sh) = co"
  "tf_shift (init_attrs df labels conf pre bkt librosa skipn co sh) = sh"
  "annotations_df (init_attrs df labels conf pre bkt librosa skipn co sh) = df"
  "target_labels (init_attrs df labels conf pre bkt librosa skipn co sh) = labels"
  by (simp_all add: init_attrs_def)

lemma extend_fields:
  "audio_transform (self_attrs.extend a (AudioDataset.fields tr al sp)) = tr"
  "al_transform (self_attrs.extend a (AudioDataset.fields tr al sp)) = al"
  "spec_transform (self_attrs.extend a (AudioDataset.fields tr al sp)) = sp"
  "tf_co (self_attrs.extend a (AudioDataset.fields tr al sp)) = tf_co a"
  "tf_shift (self_attrs.extend a (AudioDataset.fields tr al sp)) = tf_shift a"
  "annotations_df (self_attrs.extend a (AudioDataset.fields tr al sp)) = annotations_df a"
  "target_labels (self_attrs.extend a (AudioDataset.fields tr al sp)) = target_labels a"
  by (simp_all add: self_attrs.defs AudioDataset.defs)

section \<open>The example inputs, evaluated\<close>

lemma eval_conf_get:
  "conf_get eval_conf ''mode'' = PStr ''evaluation''"
  "conf_get eval_conf ''dataset'' = PStr ''mayo''"
  "conf_get eval_conf ''resample_rate'' = PInt 16000"
  "conf_get eval_conf ''reduce'' = PBool True"
  "conf_get eval_conf ''clip_length'' = PFloat 10"
  "conf_get eval_conf ''tshift'' = PInt 0"
  "conf_get eval_conf ''speed'' = PInt 0"
  "conf_get eval_conf ''gauss_noise'' = PInt 0"
  "conf_get eval_conf ''pshift'' = PInt 0"
  "conf_get eval_conf ''pshiftn'' = PInt 0"
  "conf_get eval_conf ''gain'' = PInt 0"
  "conf_get eval_conf ''stretch'' = PInt 0"
  "conf_get eval_conf ''num_mel_bins'' = PInt 2"
  "conf_get eval_conf ''target_length'' = PInt 3"
  "conf_get eval_conf ''freqm'' = PInt 0"
  "conf_get eval_conf ''timem'' = PInt 0"
  "conf_get eval_conf ''noise'' = PBool False"
  "conf_get eval_conf ''mean'' = PFloat (- 4)"
  "conf_get eval_conf ''std'' = PFloat 4"
  "conf_get eval_conf ''skip_norm'' = PNone"
  by (simp_all add: conf_get_def eval_conf_def)

lemma example_init:
  "AudioDataset_init example_torch example_df [''dys'', ''slow''] eval_conf ''/data'' None False False False
     = Inr example_ds"
  by (simp add: AudioDataset_init_def eval_conf_get init_skip_norm_def getaudiotransform_def
      getspectransform_def init_attrs_def example_ds_def)

lemma example_ds_fields:
  "annotations_df example_ds = example_df"
  "target_labels example_ds = [''dys'', ''slow'']"
  "audio_transform example_ds =
     [UidToWaveform ''/data'' None False, ToMonophonic, Resample (PInt 16000),
      Truncate (PFloat 10), ToTensor, WaveMean]"
  "al_transform example_ds = PlainList []"
  "spec_transform example_ds =
     [Wav2Fbank (PInt 3) (PInt 2) None None False, Normalize (PFloat (- 4)) (PFloat 4)]"
  "tf_co example_ds = None"
  "tf_shift example_ds = None"
  by (simp_all add: example_ds_def init_attrs_def self_attrs.defs AudioDataset.defs)

lemma replicate_num: "replicate (numeral k) x = x # replicate (pred_numeral k) x"
  by (simp add: numeral_eq_Suc)

lemma example_get_1:
  "getitem example_rt example_ds (IntIdx 1) =
   Inr \<lparr>uid = ''u002'', targets = [NaN, Val 1],
        waveform = Some \<lparr>shape = (1, 4), rows = [[1, 3, 3, 5]]\<rparr>,
        sample_rate = Some 8000,
        fbank = Some \<lparr>shape = (3, 2), rows = [[5 / 4, 5 / 4], [5 / 4, 5 / 4], [1, 1]]\<rparr>\<rparr>"
  by (simp add: getitem_def initial_sample_def example_ds_fields example_df_def py_nth_def
     example_rt_def example_ext_def example_wave_def channel_sum_def torch_sum_axis0_def unsqueeze0_def
     on_fbank_def fix_frames_def opt_img_def example_mel_def normalize_tensor_def upt_rec
     replicate_num)

lemma train_conf_get:
  "conf_get train_conf ''mode'' = PStr ''evaluation''"
  "conf_get train_conf ''dataset'' = PStr ''mayo''"
  "conf_get train_conf ''resample_rate'' = PInt 16000"
  "conf_get train_conf ''reduce'' = PBool True"
  "conf_get train_conf ''clip_length'' = PFloat 10"
  "conf_get train_conf ''tshift'' = PFloat (9 / 10)"
  "conf_get train_conf ''speed'' = PInt 0"
  "conf_get train_conf ''gauss_noise'' = PFloat (4 / 5)"
  "conf_get train_conf ''pshift'' = PInt 0"
  "conf_get train_conf ''pshiftn'' = PInt 0"
  "conf_get train_conf ''gain'' = PFloat (9 / 10)"
  "conf_get train_conf ''stretch'' = PInt 0"
  "conf_get train_conf ''num_mel_bins'' = PInt 2"
  "conf_get train_conf ''target_length'' = PInt 3"
  "conf_get train_conf ''freqm'' = PInt 1"
  "conf_get train_conf ''timem'' = PInt 2"
  "conf_get train_conf ''noise'' = PBool True"
  "conf_get train_conf ''mean'' = PFloat (- 4)"
  "conf_get train_conf ''std'' = PFloat 4"
  "conf_get train_conf ''skip_norm'' = PNone"
  by (simp_all add: conf_get_def train_conf_def eval_conf_def)

lemma train_init:
  "AudioDataset_init example_torch example_df [''dys'', ''slow''] train_conf ''/data'' None False False False
     = Inr example_train_ds"
  by (simp add: AudioDataset_init_def train_conf_get init_skip_norm_def getaudiotransform_def
      getspectransform_def init_attrs_def example_train_ds_def)

lemma example_train_ds_fields:
  "annotations_df example_train_ds = example_df"
  "target_labels example_train_ds = [''dys'', ''slow'']"
  "audio_transform example_train_ds =
     [UidToWaveform ''/data'' None False, ToMonophonic, Resample (PInt 16000),
      Truncate (PFloat 10), ToTensor, WaveMean]"
  "al_transform example_train_ds =
     AlCompose [TimeShifting (PFloat (9 / 10)), AddGaussianNoise (PFloat (4 / 5)), Gain (PFloat (9 / 10))]"
  "spec_transform example_train_ds =
     [Wav2Fbank (PInt 3) (PInt 2) None None False, FreqMask (PInt 1), TimeMask (PInt 2),
      Normalize (PFloat (- 4)) (PFloat 4), Noise]"
  "tf_co example_train_ds = None"
  "tf_shift example_train_ds = None"
  by (simp_all add: example_train_ds_def init_attrs_def self_attrs.defs AudioDataset.defs)

section \<open>Sample assembly\<close>






section \<open>Propagation of errors\<close>

lemma raises_at_iff: "raises_at call ts s e \<longleftrightarrow> Compose_call call ts s = Inl e"
proof
  assume "raises_at call ts s e"
  then show "Compose_call call ts s = Inl e"
    by (induction rule: raises_at.induct) simp_all
next
  assume "Compose_call call ts s = Inl e"
  then show "raises_at call ts s e"
  proof (induction ts arbitrary: s)
    case Nil
    then show ?case by simp
  next
    case (Cons t ts)
    show ?case
    proof (cases "call t s")
      case (Inl e')
      with Cons.prems show ?thesis by (simp add: raises_at.here)
    next
      case (Inr s')
      with Cons show ?thesis by (simp add: raises_at.later)
    qed
  qed
qed

text \<open>
  C6: \<open>__getitem__\<close> has no handler. An exception raised by a table lookup, by a stage of the
  signal chain, by the augmentation call or by a stage of the spectrogram chain (each stage
  reached on the results of the ones before it) is the outcome of \<open>__getitem__\<close>: the same
  exception, and no sample.
\<close>

theorem stage_error_propagates:
  "(initial_sample ds (the_int idx) = Inl e \<longrightarrow> getitem rt ds idx = Inl e)
   \<and> (\<forall>s0. initial_sample ds (the_int idx) = Inr s0
           \<and> raises_at (stage_call rt) (audio_transform ds) s0 e
         \<longrightarrow> getitem rt ds idx = Inl e)
   \<and> (\<forall>s0 s1. initial_sample ds (the_int idx) = Inr s0
           \<and> Compose_call (stage_call rt) (audio_transform ds) s0 = Inr s1
           \<and> run_al rt (al_transform ds) s1 = Inl e
         \<longrightarrow> getitem rt ds idx = Inl e)
   \<and> (\<forall>s0 s1 s2. initial_sample ds (the_int idx) = Inr s0
           \<and> Compose_call (stage_call rt) (audio_transform ds) s0 = Inr s1
           \<and> run_al rt (al_transform ds) s1 = Inr s2
           \<and> raises_at (stage_call rt) (spec_transform ds) s2 e
         \<longrightarrow> getitem rt ds idx = Inl e)"
  by (cases idx) (simp_all add: getitem_def raises_at_iff)

lemma example_initial_sample:
  "initial_sample example_ds 0 =
     Inr \<lparr>uid = ''u001'', targets = [Val 1, Val 0], waveform = None, sample_rate = None, fbank = None\<rparr>"
  "initial_sample example_ds 2 =
     Inr \<lparr>uid = ''u003'', targets = [Val 0, NaN], waveform = None, sample_rate = None, fbank = None\<rparr>"
  "initial_sample example_ds 7 = Inl IndexError"
  by (simp_all add: initial_sample_def example_ds_fields example_df_def py_nth_def)

lemma example_audio_chain_0:
  "Compose_call (stage_call example_rt) (audio_transform example_ds)
     \<lparr>uid = ''u001'', targets = [Val 1, Val 0], waveform = None, sample_rate = None, fbank = None\<rparr>
   = Inr \<lparr>uid = ''u001'', targets = [Val 1, Val 0],
          waveform = Some \<lparr>shape = (1, 4), rows = [[1, 3, 3, 5]]\<rparr>,
          sample_rate = Some 8000, fbank = None\<rparr>"
  by (simp add: example_ds_fields example_rt_def example_ext_def example_wave_def channel_sum_def
      torch_sum_axis0_def unsqueeze0_def upt_rec)

theorem stage_error_propagates_witness:
  "getitem example_rt example_ds (IntIdx 7) = Inl IndexError
   \<and> getitem example_rt example_ds (IntIdx 2) = Inl (Raised ''NotFoundError'')
   \<and> getitem (example_rt\<lparr>al_call := \<lambda>ts s. Inl (Raised ''EmptyAudioError'')\<rparr>)
        (example_ds\<lparr>al_transform := AlCompose [TimeShifting (PFloat (9 / 10))]\<rparr>) (IntIdx 0)
       = Inl (Raised ''EmptyAudioError'')
   \<and> getitem example_rt
        (example_ds\<lparr>spec_transform := [Wav2Fbank PNone (PInt 2) None None False]\<rparr>) (TensorIdx 0)
       = Inl TypeError"
proof -
  let ?s0 = "\<lparr>uid = ''u001'', targets = [Val 1, Val 0], waveform = None, sample_rate = None,
              fbank = None\<rparr>"
  let ?s1 = "\<lparr>uid = ''u001'', targets = [Val 1, Val 0],
              waveform = Some \<lparr>shape = (1, 4), rows = [[1, 3, 3, 5]]\<rparr>,
              sample_rate = Some 8000, fbank = None\<rparr>"
  let ?s2 = "\<lparr>uid = ''u003'', targets = [Val 0, NaN], waveform = None, sample_rate = None,
              fbank = None\<rparr>"
  let ?rt = "example_rt\<lparr>al_call := \<lambda>ts s. Inl (Raised ''EmptyAudioError'')\<rparr>"
  let ?ds_al = "example_ds\<lparr>al_transform := AlCompose [TimeShifting (PFloat (9 / 10))]\<rparr>"
  let ?ds_sp = "example_ds\<lparr>spec_transform := [Wav2Fbank PNone (PInt 2) None None False]\<rparr>"
  have a: "initial_sample example_ds (the_int (IntIdx 7)) = Inl IndexError"
    by (simp add: example_initial_sample)
  have b0: "initial_sample example_ds (the_int (IntIdx 2)) = Inr ?s2"
    by (simp add: example_initial_sample)
  have b1: "raises_at (stage_call example_rt) (audio_transform example_ds) ?s2 (Raised ''NotFoundError'')"
    by (simp add: example_ds_fields example_rt_def example_ext_def raises_at.here)
  have c0: "initial_sample ?ds_al (the_int (IntIdx 0)) = Inr ?s0"
    using example_initial_sample(1) by (simp add: initial_sample_def)
  have c1: "Compose_call (stage_call ?rt) (audio_transform ?ds_al) ?s0 = Inr ?s1"
    using example_audio_chain_0 by simp
  have c2: "run_al ?rt (al_transform ?ds_al) ?s1 = Inl (Raised ''EmptyAudioError'')"
    by simp
  have d0: "initial_sample ?ds_sp (the_int (TensorIdx 0)) = Inr ?s0"
    using example_initial_sample(1) by (simp add: initial_sample_def)
  have d1: "Compose_call (stage_call example_rt) (audio_transform ?ds_sp) ?s0 = Inr ?s1"
    using example_audio_chain_0 by simp
  have d2: "run_al example_rt (al_transform ?ds_sp) ?s1 = Inr ?s1"
    by (simp add: example_ds_fields)
  have d3: "raises_at (stage_call example_rt) (spec_transform ?ds_sp) ?s1 TypeError"
    by (simp add: example_rt_def raises_at.here)
  from stage_error_propagates [of example_ds "IntIdx 7" IndexError example_rt] a
  have A: "getitem example_rt example_ds (IntIdx 7) = Inl IndexError"
    by blast
  from stage_error_propagates [of example_ds "IntIdx 2" "Raised ''NotFoundError''" example_rt] b0 b1
  have B: "getitem example_rt example_ds (IntIdx 2) = Inl (Raised ''NotFoundError'')"
    by blast
  from stage_error_propagates [of ?ds_al "IntIdx 0" "Raised ''EmptyAudioError''" ?rt] c0 c1 c2
  have C: "getitem ?rt ?ds_al (IntIdx 0) = Inl (Raised ''EmptyAudioError'')"
    by blast
  from stage_error_propagates [of ?ds_sp "TensorIdx 0" TypeError example_rt] d0 d1 d2 d3
  have D: "getitem example_rt ?ds_sp (TensorIdx 0) = Inl TypeError"
    by blast
  from A B C D show ?thesis by blast
qed

section \<open>Order of the stages\<close>

lemma spec_chain_run:
  "Compose_call call ([Wav2Fbank a b c d False]
           @ (if p1 then [FreqMask f] else [])
           @ (if p2 then [TimeMask t] else [])
           @ (if p3 then [Normalize m sd] else [])
           @ (if p4 then [Noise] else [])) s =
             andthen (call (Wav2Fbank a b c d False) s) (\<lambda>s1.
             andthen (if p1 then call (FreqMask f) s1 else Inr s1) (\<lambda>s2.
             andthen (if p2 then call (TimeMask t) s2 else Inr s2) (\<lambda>s3.
             andthen (if p3 then call (Normalize m sd) s3 else Inr s3) (\<lambda>s4.
             if p4 then call Noise s4 else Inr s4))))"
  by (simp only: Compose_call_append_fun Compose_call_single Compose_call_opt)

lemma signal_chain_run:
  "Compose_call call ([UidToWaveform a b c]
           @ (if p1 then [ToMonophonic] else [])
           @ (if p2 then [Resample f] else [])
           @ (if p3 then [Truncate t] else [])
           @ [ToTensor, WaveMean]) s =
             andthen (call (UidToWaveform a b c) s) (\<lambda>s1.
             andthen (if p1 then call ToMonophonic s1 else Inr s1) (\<lambda>s2.
             andthen (if p2 then call (Resample f) s2 else Inr s2) (\<lambda>s3.
             andthen (if p3 then call (Truncate t) s3 else Inr s3) (\<lambda>s4.
             andthen (call ToTensor s4) (call WaveMean)))))"
  by (simp only: Compose_call_append_fun Compose_call_single Compose_call_opt Compose_call_two)

text \<open>
  C2: in a constructed dataset the spectrogram chain is the list: filterbank conversion,
  then \<open>FreqMask\<close> exactly when \<open>freqm != 0\<close>, then \<open>TimeMask\<close> exactly when \<open>timem != 0\<close>,
  then \<open>Normalize\<close> with the configured mean and std exactly when \<open>skip_norm\<close> is not set,
  then \<open>Noise\<close> exactly when \<open>noise\<close> is set; and calling the chain calls these stages in
  this order, each on the result of the one before.
\<close>

theorem spec_chain_order:
  assumes "AudioDataset_init torch_has df labels conf pre bkt librosa cdo shift = Inr ds"
  shows "spec_transform ds =
           [Wav2Fbank (conf_get conf ''target_length'') (conf_get conf ''num_mel_bins'')
              (tf_co ds) (tf_shift ds) False]
           @ (if py_ne_zero (conf_get conf ''freqm'') then [FreqMask (conf_get conf ''freqm'')] else [])
           @ (if py_ne_zero (conf_get conf ''timem'') then [TimeMask (conf_get conf ''timem'')] else [])
           @ (if \<not> py_truth (conf_get conf ''skip_norm'')
              then [Normalize (conf_get conf ''mean'') (conf_get conf ''std'')] else [])
           @ (if py_truth (conf_get conf ''noise'') then [Noise] else [])
         \<and> Compose_call call (spec_transform ds) s =
             andthen (call (Wav2Fbank (conf_get conf ''target_length'') (conf_get conf ''num_mel_bins'')
                              (tf_co ds) (tf_shift ds) False) s) (\<lambda>s1.
             andthen (if py_ne_zero (conf_get conf ''freqm'')
                      then call (FreqMask (conf_get conf ''freqm'')) s1 else Inr s1) (\<lambda>s2.
             andthen (if py_ne_zero (conf_get conf ''timem'')
                      then call (TimeMask (conf_get conf ''timem'')) s2 else Inr s2) (\<lambda>s3.
             andthen (if \<not> py_truth (conf_get conf ''skip_norm'')
                      then call (Normalize (conf_get conf ''mean'') (conf_get conf ''std'')) s3
                      else Inr s3) (\<lambda>s4.
             if py_truth (conf_get conf ''noise'') then call Noise s4 else Inr s4))))"
proof -
  from assms obtain co sh tr al where
    ds: "ds = self_attrs.extend (init_attrs df labels conf pre bkt librosa (init_skip_norm conf) co sh)
            (AudioDataset.fields tr al
               (getspectransform (init_attrs df labels conf pre bkt librosa (init_skip_norm conf) co sh)))"
    by (rule init_Inr)
  have chain: "spec_transform ds =
           [Wav2Fbank (conf_get conf ''target_length'') (conf_get conf ''num_mel_bins'')
              (tf_co ds) (tf_shift ds) False]
           @ (if py_ne_zero (conf_get conf ''freqm'') then [FreqMask (conf_get conf ''freqm'')] else [])
           @ (if py_ne_zero (conf_get conf ''timem'') then [TimeMask (conf_get conf ''timem'')] else [])
           @ (if \<not> py_truth (conf_get conf ''skip_norm'')
              then [Normalize (conf_get conf ''mean'') (conf_get conf ''std'')] else [])
           @ (if py_truth (conf_get conf ''noise'') then [Noise] else [])"
    by (simp only: ds extend_fields getspectransform_def init_attrs_fields py_truth_init_skip_norm)
  show ?thesis
    by (rule conjI, rule chain, subst chain, rule spec_chain_run)
qed

theorem spec_chain_order_witness:
  "spec_transform example_train_ds =
     [Wav2Fbank (PInt 3) (PInt 2) None None False, FreqMask (PInt 1), TimeMask (PInt 2),
      Normalize (PFloat (- 4)) (PFloat 4), Noise]
   \<and> spec_transform example_ds =
     [Wav2Fbank (PInt 3) (PInt 2) None None False, Normalize (PFloat (- 4)) (PFloat 4)]"
proof -
  from spec_chain_order [OF train_init]
  have a: "spec_transform example_train_ds =
     [Wav2Fbank (PInt 3) (PInt 2) None None False, FreqMask (PInt 1), TimeMask (PInt 2),
      Normalize (PFloat (- 4)) (PFloat 4), Noise]"
    by (simp add: train_conf_get example_train_ds_fields(6,7))
  from spec_chain_order [OF example_init]
  have b: "spec_transform example_ds =
     [Wav2Fbank (PInt 3) (PInt 2) None None False, Normalize (PFloat (- 4)) (PFloat 4)]"
    by (simp add: eval_conf_get example_ds_fields(6,7))
  from a b show ?thesis by blast
qed

text \<open>
  C3: in a constructed dataset the signal chain is the list: waveform loading, then
  \<open>ToMonophonic\<close> exactly when \<open>reduce\<close> is set, then \<open>Resample\<close> exactly when
  \<open>resample_rate != 0\<close>, then \<open>Truncate\<close> exactly when \<open>clip_length != 0\<close>, then \<open>ToTensor\<close>,
  then \<open>WaveMean\<close>; calling the chain calls these stages in this order; and the reduce
  function sums the channels into one channel of shape (1, samples).
\<close>

theorem signal_chain_order:
  assumes "AudioDataset_init torch_has df labels conf pre bkt librosa cdo shift = Inr ds"
  shows "audio_transform ds =
           [UidToWaveform pre bkt librosa]
           @ (if py_truth (conf_get conf ''reduce'') then [ToMonophonic] else [])
           @ (if py_ne_zero (conf_get conf ''resample_rate'')
              then [Resample (conf_get conf ''resample_rate'')] else [])
           @ (if py_ne_zero (conf_get conf ''clip_length'')
              then [Truncate (conf_get conf ''clip_length'')] else [])
           @ [ToTensor, WaveMean]
         \<and> Compose_call call (audio_transform ds) s =
             andthen (call (UidToWaveform pre bkt librosa) s) (\<lambda>s1.
             andthen (if py_truth (conf_get conf ''reduce'') then call ToMonophonic s1 else Inr s1) (\<lambda>s2.
             andthen (if py_ne_zero (conf_get conf ''resample_rate'')
                      then call (Resample (conf_get conf ''resample_rate'')) s2 else Inr s2) (\<lambda>s3.
             andthen (if py_ne_zero (conf_get conf ''clip_length'')
                      then call (Truncate (conf_get conf ''clip_length'')) s3 else Inr s3) (\<lambda>s4.
             andthen (call ToTensor s4) (call WaveMean)))))
         \<and> shape (channel_sum w) = (1, snd (shape w))
         \<and> rows (channel_sum w) = [map (\<lambda>j. sum_list (map (\<lambda>r. r ! j) (rows w))) [0..<snd (shape w)]]
         \<and> wf_tensor (channel_sum w)"
proof -
  from assms obtain co sh tr al where
    tr: "getaudiotransform (init_attrs df labels conf pre bkt librosa (init_skip_norm conf) co sh) = Inr (tr, al)"
    and ds: "ds = self_attrs.extend (init_attrs df labels conf pre bkt librosa (init_skip_norm conf) co sh)
            (AudioDataset.fields tr al
               (getspectransform (init_attrs df labels conf pre bkt librosa (init_skip_norm conf) co sh)))"
    by (rule init_Inr)
  have chain: "audio_transform ds =
           [UidToWaveform pre bkt librosa]
           @ (if py_truth (conf_get conf ''reduce'') then [ToMonophonic] else [])
           @ (if py_ne_zero (conf_get conf ''resample_rate'')
              then [Resample (conf_get conf ''resample_rate'')] else [])
           @ (if py_ne_zero (conf_get conf ''clip_length'')
              then [Truncate (conf_get conf ''clip_length'')] else [])
           @ [ToTensor, WaveMean]"
    using getaudiotransform_Inr(1) [OF tr] by (simp only: ds extend_fields init_attrs_fields)
  have sum1: "shape (channel_sum w) = (1, snd (shape w))"
    by (simp add: channel_sum_def unsqueeze0_def torch_sum_axis0_def)
  have sum2: "rows (channel_sum w) = [map (\<lambda>j. sum_list (map (\<lambda>r. r ! j) (rows w))) [0..<snd (shape w)]]"
    by (simp add: channel_sum_def unsqueeze0_def torch_sum_axis0_def)
  have sum3: "wf_tensor (channel_sum w)"
    by (simp add: channel_sum_def unsqueeze0_def torch_sum_axis0_def wf_tensor_def)
  show ?thesis
    by (rule conjI, rule chain, rule conjI, subst chain, rule signal_chain_run,
        rule conjI, rule sum1, rule conjI, rule sum2, rule sum3)
qed

theorem signal_chain_order_witness:
  "audio_transform example_ds =
     [UidToWaveform ''/data'' None False, ToMonophonic, Resample (PInt 16000),
      Truncate (PFloat 10), ToTensor, WaveMean]
   \<and> shape (channel_sum example_wave) = (1, 4)
   \<and> rows (channel_sum example_wave) = [[1, 3, 3, 5]]"
proof -
  from signal_chain_order [OF example_init, of _ _ example_wave]
  show ?thesis
    by (simp add: eval_conf_get example_wave_def upt_rec)
qed

section \<open>Defects of the constructor\<close>

text \<open>
  C4: with a nonzero pitch-shift probability the constructor does not build a chain
  containing \<open>PitchShift\<close>: \<open>_getaudiotransform\<close> reads the unassigned attribute
  \<open>self.pshiftn\<close> and construction ends with AttributeError.
\<close>

theorem pitch_shift_construction_raises:
  "AudioDataset_init example_torch example_df [''dys'', ''slow'']
     (eval_conf(''pshift'' \<mapsto> PFloat (1 / 2), ''pshiftn'' \<mapsto> PInt 1)) ''/data'' None False False False
   = Inl AttributeError"
  by (simp add: AudioDataset_init_def conf_get_def eval_conf_def init_skip_norm_def
      getaudiotransform_def init_attrs_def)

text \<open>
  With a zero pitch-shift probability the chain holds, in the fixed order, exactly the
  stages whose probability is nonzero, and an empty chain is skipped by \<open>__getitem__\<close>.
\<close>

lemma augmentation_chain_without_pitch_shift:
  assumes "AudioDataset_init torch_has df labels conf pre bkt librosa cdo shift = Inr ds"
  shows "\<not> py_ne_zero (conf_get conf ''pshift'')"
    and "\<exists>al. al =
           (if py_ne_zero (conf_get conf ''tshift'') then [TimeShifting (conf_get conf ''tshift'')] else [])
           @ (if py_ne_zero (conf_get conf ''speed'') then [SpeedTuning (conf_get conf ''speed'')] else [])
           @ (if py_ne_zero (conf_get conf ''gauss_noise'')
              then [AddGaussianNoise (conf_get conf ''gauss_noise'')] else [])
           @ (if py_ne_zero (conf_get conf ''gain'') then [Gain (conf_get conf ''gain'')] else [])
           @ (if py_ne_zero (conf_get conf ''stretch'') then [StretchAudio (conf_get conf ''stretch'')] else [])
         \<and> al_transform ds = (if al \<noteq> [] then AlCompose al else PlainList [])"
    and "al_transform ds = PlainList [] \<Longrightarrow> run_al rt (al_transform ds) s = Inr s"
proof -
  from assms obtain co sh tr al where
    tr: "getaudiotransform (init_attrs df labels conf pre bkt librosa (init_skip_norm conf) co sh) = Inr (tr, al)"
    and ds: "ds = self_attrs.extend (init_attrs df labels conf pre bkt librosa (init_skip_norm conf) co sh)
            (AudioDataset.fields tr al
               (getspectransform (init_attrs df labels conf pre bkt librosa (init_skip_norm conf) co sh)))"
    by (rule init_Inr)
  from getaudiotransform_Inr(2) [OF tr]
  show np: "\<not> py_ne_zero (conf_get conf ''pshift'')"
    by (simp add: init_attrs_fields)
  have al: "al_transform ds = al"
    by (simp only: ds extend_fields)
  from tr np
  show "\<exists>al. al =
           (if py_ne_zero (conf_get conf ''tshift'') then [TimeShifting (conf_get conf ''tshift'')] else [])
           @ (if py_ne_zero (conf_get conf ''speed'') then [SpeedTuning (conf_get conf ''speed'')] else [])
           @ (if py_ne_zero (conf_get conf ''gauss_noise'')
              then [AddGaussianNoise (conf_get conf ''gauss_noise'')] else [])
           @ (if py_ne_zero (conf_get conf ''gain'') then [Gain (conf_get conf ''gain'')] else [])
           @ (if py_ne_zero (conf_get conf ''stretch'') then [StretchAudio (conf_get conf ''stretch'')] else [])
         \<and> al_transform ds = (if al \<noteq> [] then AlCompose al else PlainList [])"
    unfolding al getaudiotransform_def Let_def init_attrs_fields
    by (simp split: if_splits)
  show "al_transform ds = PlainList [] \<Longrightarrow> run_al rt (al_transform ds) s = Inr s"
    by simp
qed

text \<open>
  C8: \<open>torch\<close> provides neither \<open>CoarseDropout\<close> nor \<open>Affine\<close>; whenever its namespace lacks
  these names, construction with \<open>cdo=True\<close> or \<open>shift=True\<close> never yields a dataset, and
  for a configuration that constructs without them it ends with AttributeError.
\<close>

theorem image_transform_construction_raises:
  assumes "\<not> torch_has ''CoarseDropout''" "\<not> torch_has ''Affine''" "cdo \<or> shift"
  shows "(\<exists>e. AudioDataset_init torch_has df labels conf pre bkt librosa cdo shift = Inl e)
       \<and> (\<forall>ds. AudioDataset_init torch_has df labels conf pre bkt librosa False False = Inr ds
            \<longrightarrow> AudioDataset_init torch_has df labels conf pre bkt librosa cdo shift = Inl AttributeError)"
proof -
  have no: "\<And>ds. AudioDataset_init torch_has df labels conf pre bkt librosa cdo shift \<noteq> Inr ds"
  proof
    fix ds
    assume "AudioDataset_init torch_has df labels conf pre bkt librosa cdo shift = Inr ds"
    then show False
      using assms unfolding AudioDataset_init_def andthen_Inr_iff
      by (auto simp: torch_attr_Inr split: if_splits)
  qed
  then have some: "\<exists>e. AudioDataset_init torch_has df labels conf pre bkt librosa cdo shift = Inl e"
    by (cases "AudioDataset_init torch_has df labels conf pre bkt librosa cdo shift") auto
  have attr: "AudioDataset_init torch_has df labels conf pre bkt librosa cdo shift = Inl AttributeError"
    if ok: "AudioDataset_init torch_has df labels conf pre bkt librosa False False = Inr ds" for ds
  proof -
    from ok have
      "format_s (conf_get conf ''mode'') = Inr ()"
      "str_concat (conf_get conf ''dataset'') = Inr ()"
      "format_d (conf_get conf ''freqm'') = Inr ()"
      "format_d (conf_get conf ''timem'') = Inr ()"
      "(if py_truth (init_skip_norm conf) then Inr ()
              else andthen (format_3f (conf_get conf ''mean'')) (\<lambda>_.
                           format_3f (conf_get conf ''std''))) = Inr ()"
      unfolding AudioDataset_init_def andthen_Inr_iff by auto
    then show ?thesis
      using assms by (auto simp: AudioDataset_init_def torch_attr_def)
  qed
  from some attr show ?thesis by blast
qed

theorem image_transform_construction_raises_witness:
  "AudioDataset_init example_torch example_df [''dys'', ''slow''] eval_conf ''/data'' None False True False
     = Inl AttributeError
   \<and> AudioDataset_init example_torch example_df [''dys'', ''slow''] eval_conf ''/data'' None False False True
     = Inl AttributeError"
proof -
  have a: "\<not> example_torch ''CoarseDropout''" and b: "\<not> example_torch ''Affine''"
    by (simp_all add: example_torch_def)
  from image_transform_construction_raises [OF a b, of True False] example_init
  have A: "AudioDataset_init example_torch example_df [''dys'', ''slow''] eval_conf ''/data'' None False
             True False = Inl AttributeError"
    by blast
  from image_transform_construction_raises [OF a b, of False True] example_init
  have B: "AudioDataset_init example_torch example_df [''dys'', ''slow''] eval_conf ''/data'' None False
             False True = Inl AttributeError"
    by blast
  from A B show ?thesis by blast
qed

section \<open>The dataset is read-only after construction\<close>


section \<open>What construction checks\<close>















section \<open>The shape of the feature\<close>

lemma wf_fix_frames:
  assumes "wf_tensor fb"
  shows "wf_tensor (fix_frames T fb)" and "shape (fix_frames T fb) = (T, snd (shape fb))"
proof -
  from assms have rows: "list_all (\<lambda>r. length r = snd (shape fb)) (rows fb)"
    by (simp add: wf_tensor_def)
  then have "list_all (\<lambda>r. length r = snd (shape fb)) (take T (rows fb))"
    by (auto simp: list_all_iff dest: in_set_takeD)
  with rows show "wf_tensor (fix_frames T fb)"
    by (auto simp: wf_tensor_def fix_frames_def list_all_iff)
  show "shape (fix_frames T fb) = (T, snd (shape fb))"
    by (simp add: fix_frames_def)
qed

lemma length_zero_band: "length (zero_band a w r) = length r"
  by (simp add: zero_band_def)

lemma wf_zero_cols:
  "wf_tensor fb \<Longrightarrow> wf_tensor (zero_cols a w fb) \<and> shape (zero_cols a w fb) = shape fb"
  by (auto simp: wf_tensor_def zero_cols_def list_all_iff length_zero_band)

lemma wf_zero_rows:
  "wf_tensor fb \<Longrightarrow> wf_tensor (zero_rows a w fb) \<and> shape (zero_rows a w fb) = shape fb"
  by (auto simp: wf_tensor_def zero_rows_def list_all_iff in_set_enumerate_eq)

lemma wf_normalize_tensor:
  "wf_tensor fb \<Longrightarrow> wf_tensor (normalize_tensor m sd fb) \<and> shape (normalize_tensor m sd fb) = shape fb"
  by (auto simp: wf_tensor_def normalize_tensor_def list_all_iff)

lemma wf_add_noise:
  "wf_tensor fb \<Longrightarrow> wf_tensor (add_noise nz fb) \<and> shape (add_noise nz fb) = shape fb"
  by (auto simp: wf_tensor_def add_noise_def list_all_iff in_set_enumerate_eq)

lemma on_fbank_shape:
  assumes "has_fbank_shape T M s" and "on_fbank s f = Inr s'"
    and "\<And>fb. wf_tensor fb \<Longrightarrow> wf_tensor (f fb) \<and> shape (f fb) = shape fb"
  shows "has_fbank_shape T M s'"
  using assms by (auto simp: has_fbank_shape_def on_fbank_def split: option.splits)

lemma post_stage_shape:
  assumes "is_post_stage st" and "has_fbank_shape T M s" and "spec_stage_call x st s = Inr s'"
  shows "has_fbank_shape T M s'"
proof (cases st)
  case (FreqMask m)
  with assms(3) obtain k where
    "on_fbank s (\<lambda>fb. zero_cols (fst (freq_band x (nat k) fb))
                        (min (snd (freq_band x (nat k) fb)) (nat k)) fb) = Inr s'"
    by (auto split: option.splits)
  with assms(2) show ?thesis
    by (rule on_fbank_shape) (rule wf_zero_cols)
next
  case (TimeMask m)
  with assms(3) obtain k where
    "on_fbank s (\<lambda>fb. zero_rows (fst (time_band x (nat k) fb))
                        (min (snd (time_band x (nat k) fb)) (nat k)) fb) = Inr s'"
    by (auto split: option.splits)
  with assms(2) show ?thesis
    by (rule on_fbank_shape) (rule wf_zero_rows)
next
  case (Normalize m sd)
  with assms(3) obtain mu sg where "on_fbank s (normalize_tensor mu sg) = Inr s'"
    by (auto split: option.splits)
  with assms(2) show ?thesis
    by (rule on_fbank_shape) (rule wf_normalize_tensor)
next
  case Noise
  with assms(3) have "on_fbank s (add_noise (noise_at x)) = Inr s'"
    by simp
  with assms(2) show ?thesis
    by (rule on_fbank_shape) (rule wf_add_noise)
qed (use assms(1) in simp_all)

lemma post_chain_shape:
  assumes "\<forall>st\<in>set ts. is_post_stage st" and "has_fbank_shape T M s"
    and "Compose_call (spec_stage_call x) ts s = Inr s'"
  shows "has_fbank_shape T M s'"
  using assms
proof (induction ts arbitrary: s)
  case Nil
  then show ?case by simp
next
  case (Cons t ts)
  from Cons.prems(3) obtain s1 where
    one: "spec_stage_call x t s = Inr s1" and rest: "Compose_call (spec_stage_call x) ts s1 = Inr s'"
    by (auto simp: andthen_Inr_iff)
  from Cons.prems(1) one Cons.prems(2) have "has_fbank_shape T M s1"
    by (auto intro: post_stage_shape)
  with Cons.IH rest Cons.prems(1) show ?case by simp
qed

lemma wf_opt_img:
  assumes "\<forall>t fb. wf_tensor fb \<longrightarrow> wf_tensor (img_apply x t fb) \<and> snd (shape (img_apply x t fb)) = snd (shape fb)"
    and "wf_tensor fb"
  shows "wf_tensor (opt_img x tf fb) \<and> snd (shape (opt_img x tf fb)) = snd (shape fb)"
  using assms by (cases tf) (simp_all add: opt_img_def)

lemma conversion_shape:
  assumes "spec_stage_call x (Wav2Fbank (PInt (int T)) (PInt (int M)) co sh ow) s = Inr s'"
    and mel: "\<forall>w sr. wf_tensor (mel_filterbank x M w sr) \<and> snd (shape (mel_filterbank x M w sr)) = M"
    and img: "\<forall>t fb. wf_tensor fb \<longrightarrow> wf_tensor (img_apply x t fb) \<and> snd (shape (img_apply x t fb)) = snd (shape fb)"
  shows "has_fbank_shape T M s'"
proof -
  from assms(1) obtain w where
    s': "s' = s\<lparr>fbank := Some (fix_frames T
                 (opt_img x sh (opt_img x co (mel_filterbank x M w (sample_rate s)))))\<rparr>"
    by (auto split: option.splits)
  let ?m = "mel_filterbank x M w (sample_rate s)"
  from mel have m: "wf_tensor ?m" "snd (shape ?m) = M" by simp_all
  from wf_opt_img [OF img m(1), of co] m(2)
  have c: "wf_tensor (opt_img x co ?m)" "snd (shape (opt_img x co ?m)) = M" by simp_all
  from wf_opt_img [OF img c(1), of sh] c(2)
  have d: "wf_tensor (opt_img x sh (opt_img x co ?m))" "snd (shape (opt_img x sh (opt_img x co ?m))) = M"
    by simp_all
  from wf_fix_frames [OF d(1), of T] d(2) show ?thesis
    by (simp add: has_fbank_shape_def s')
qed

text \<open>
  C1: with the spectrogram stages as the spec describes them, a mel-filterbank that yields
  \<open>num_mel_bins\<close> bins per frame and image transforms that keep the bin count, every
  sample that \<open>__getitem__\<close> returns on a constructed dataset has a feature of shape
  exactly \<open>(target_length, num_mel_bins)\<close>, however many frames the waveform gave.
\<close>

theorem fbank_shape_fixed:
  assumes init: "AudioDataset_init torch_has df labels conf pre bkt librosa cdo shift = Inr ds"
    and T: "conf_get conf ''target_length'' = PInt (int T)"
    and M: "conf_get conf ''num_mel_bins'' = PInt (int M)"
    and mel: "\<forall>w sr. wf_tensor (mel_filterbank x M w sr) \<and> snd (shape (mel_filterbank x M w sr)) = M"
    and img: "\<forall>t fb. wf_tensor fb \<longrightarrow> wf_tensor (img_apply x t fb) \<and> snd (shape (img_apply x t fb)) = snd (shape fb)"
    and rt: "stage_call rt = spec_stage_call x"
    and get: "getitem rt ds idx = Inr r"
  shows "\<exists>fb. fbank r = Some fb \<and> shape fb = (T, M) \<and> wf_tensor fb"
proof -
  from init obtain co sh tr al where
    ds: "ds = self_attrs.extend (init_attrs df labels conf pre bkt librosa (init_skip_norm conf) co sh)
            (AudioDataset.fields tr al
               (getspectransform (init_attrs df labels conf pre bkt librosa (init_skip_norm conf) co sh)))"
    by (rule init_Inr)
  define post where "post =
      (if py_ne_zero (conf_get conf ''freqm'') then [FreqMask (conf_get conf ''freqm'')] else [])
      @ (if py_ne_zero (conf_get conf ''timem'') then [TimeMask (conf_get conf ''timem'')] else [])
      @ (if \<not> py_truth (init_skip_norm conf)
         then [Normalize (conf_get conf ''mean'') (conf_get conf ''std'')] else [])
      @ (if py_truth (conf_get conf ''noise'') then [Noise] else [])"
  have chain: "spec_transform ds = Wav2Fbank (PInt (int T)) (PInt (int M)) co sh False # post"
    by (simp add: ds extend_fields getspectransform_def init_attrs_fields T M post_def)
  have post: "\<forall>st\<in>set post. is_post_stage st"
    by (auto simp: post_def)
  from get obtain s2 where
    run: "Compose_call (spec_stage_call x) (spec_transform ds) s2 = Inr r"
    by (auto simp: getitem_def andthen_Inr_iff rt Let_def)
  then obtain s3 where
    conv: "spec_stage_call x (Wav2Fbank (PInt (int T)) (PInt (int M)) co sh False) s2 = Inr s3"
    and rest: "Compose_call (spec_stage_call x) post s3 = Inr r"
    unfolding chain by (auto simp: andthen_Inr_iff)
  from conversion_shape [OF conv mel img] have "has_fbank_shape T M s3" .
  from post_chain_shape [OF post this rest] have "has_fbank_shape T M r" .
  then show ?thesis
    by (auto simp: has_fbank_shape_def split: option.splits)
qed

lemma example_mel_wf:
  "\<forall>w sr. wf_tensor (mel_filterbank (wave_ext n) 2 w sr)
           \<and> snd (shape (mel_filterbank (wave_ext n) 2 w sr)) = 2"
  by (simp add: wave_ext_def example_ext_def example_mel_def wf_tensor_def list_all_iff)

lemma example_img_wf:
  "\<forall>t fb. wf_tensor fb \<longrightarrow> wf_tensor (img_apply (wave_ext n) t fb)
           \<and> snd (shape (img_apply (wave_ext n) t fb)) = snd (shape fb)"
  by (simp add: wave_ext_def example_ext_def)

lemma example_get_shorter:
  "getitem (wave_rt 2) example_ds (IntIdx 0) =
     Inr \<lparr>uid = ''u001'', targets = [Val 1, Val 0],
          waveform = Some \<lparr>shape = (1, 2), rows = [[1, 1]]\<rparr>, sample_rate = Some 8000,
          fbank = Some \<lparr>shape = (3, 2), rows = [[5 / 4, 5 / 4], [1, 1], [1, 1]]\<rparr>\<rparr>"
  by (simp add: getitem_def example_initial_sample example_ds_fields wave_rt_def wave_ext_def
      example_ext_def wave_of_len_def on_fbank_def fix_frames_def opt_img_def example_mel_def
      normalize_tensor_def replicate_num)

lemma example_get_exact:
  "getitem (wave_rt 6) example_ds (IntIdx 0) =
     Inr \<lparr>uid = ''u001'', targets = [Val 1, Val 0],
          waveform = Some \<lparr>shape = (1, 6), rows = [[1, 1, 1, 1, 1, 1]]\<rparr>, sample_rate = Some 8000,
          fbank = Some \<lparr>shape = (3, 2), rows = [[5 / 4, 5 / 4], [5 / 4, 5 / 4], [5 / 4, 5 / 4]]\<rparr>\<rparr>"
  by (simp add: getitem_def example_initial_sample example_ds_fields wave_rt_def wave_ext_def
      example_ext_def wave_of_len_def on_fbank_def fix_frames_def opt_img_def example_mel_def
      normalize_tensor_def replicate_num)

lemma example_train_initial_sample:
  "initial_sample example_train_ds 0 =
     Inr \<lparr>uid = ''u001'', targets = [Val 1, Val 0], waveform = None, sample_rate = None, fbank = None\<rparr>"
  by (simp add: initial_sample_def example_train_ds_fields example_df_def py_nth_def)

lemma example_get_longer:
  "getitem (wave_rt 10) example_train_ds (IntIdx 0) =
     Inr \<lparr>uid = ''u001'', targets = [Val 1, Val 0],
          waveform = Some \<lparr>shape = (1, 10), rows = [[1, 1, 1, 1, 1, 1, 1, 1, 1, 1]]\<rparr>,
          sample_rate = Some 8000,
          fbank = Some \<lparr>shape = (3, 2), rows = [[1, 5 / 4], [1, 1], [1, 1]]\<rparr>\<rparr>"
  by (simp add: getitem_def example_train_initial_sample example_train_ds_fields wave_rt_def
      wave_ext_def example_ext_def wave_of_len_def on_fbank_def fix_frames_def opt_img_def
      example_mel_def normalize_tensor_def zero_cols_def zero_rows_def zero_band_def add_noise_def
      enumerate_eq_zip upt_rec replicate_num)

theorem fbank_shape_fixed_witness:
  "(\<exists>r fb. getitem (wave_rt 2) example_ds (IntIdx 0) = Inr r
        \<and> fbank r = Some fb \<and> shape fb = (3, 2) \<and> wf_tensor fb)
   \<and> (\<exists>r fb. getitem (wave_rt 6) example_ds (IntIdx 0) = Inr r
        \<and> fbank r = Some fb \<and> shape fb = (3, 2) \<and> wf_tensor fb)
   \<and> (\<exists>r fb. getitem (wave_rt 10) example_train_ds (IntIdx 0) = Inr r
        \<and> fbank r = Some fb \<and> shape fb = (3, 2) \<and> wf_tensor fb)"
proof -
  have T: "conf_get eval_conf ''target_length'' = PInt (int 3)"
    and M: "conf_get eval_conf ''num_mel_bins'' = PInt (int 2)"
    and T': "conf_get train_conf ''target_length'' = PInt (int 3)"
    and M': "conf_get train_conf ''num_mel_bins'' = PInt (int 2)"
    by (simp_all add: eval_conf_get train_conf_get)
  have rt: "stage_call (wave_rt n) = spec_stage_call (wave_ext n)" for n
    by (simp add: wave_rt_def)
  from fbank_shape_fixed [OF example_init T M example_mel_wf example_img_wf rt example_get_shorter]
    example_get_shorter
  have A: "\<exists>r fb. getitem (wave_rt 2) example_ds (IntIdx 0) = Inr r
        \<and> fbank r = Some fb \<and> shape fb = (3, 2) \<and> wf_tensor fb"
    by blast
  from fbank_shape_fixed [OF example_init T M example_mel_wf example_img_wf rt example_get_exact]
    example_get_exact
  have B: "\<exists>r fb. getitem (wave_rt 6) example_ds (IntIdx 0) = Inr r
        \<and> fbank r = Some fb \<and> shape fb = (3, 2) \<and> wf_tensor fb"
    by blast
  from fbank_shape_fixed [OF train_init T' M' example_mel_wf example_img_wf rt example_get_longer]
    example_get_longer
  have C: "\<exists>r fb. getitem (wave_rt 10) example_train_ds (IntIdx 0) = Inr r
        \<and> fbank r = Some fb \<and> shape fb = (3, 2) \<and> wf_tensor fb"
    by blast
  from A B C show ?thesis by blast
qed

end
